theory Spec2Isabelle
  imports Complex_Main "HOL-Library.AList" "HOL-Library.Word"
begin

section \<open>The DMX512 lighting controller (src/src/dmxController.js)\<close>

text \<open>
  The class \<^verbatim>\<open>DMXController\<close> is embedded as a record of its fields and one HOL
  function per method. Conventions of the embedding:

  \<^item> A JavaScript \<^verbatim>\<open>Map\<close> is an association list in insertion order, looked up with
    \<open>map_of\<close> and written with \<open>AList.update\<close> (which, like \<^verbatim>\<open>Map.set\<close>, replaces the
    value of an existing key in place and appends a new key). A \<^verbatim>\<open>Set\<close> is a list
    without duplicates.
  \<^item> A method that can throw returns a pair: the outcome (\<open>Inl\<close> the error, \<open>Inr\<close> the
    returned value) and the controller afterwards, so that what was mutated before a
    throw stays mutated, as in the source. The source throws \<^verbatim>\<open>new Error(message)\<close>; the
    constructors of \<open>error\<close> name the messages.
  \<^item> The channel array of a universe and every effect object live in a store and are
    held by reference, since the source hands the same array and the same effect object
    to several holders (the registry, the timer callbacks, the status result).
  \<^item> A channel array is a partial function from index to value: \<open>None\<close> is what
    JavaScript reads as \<^verbatim>\<open>undefined\<close>, and a write at any index is an update.
  \<^item> Channel numbers, channel values and millisecond clock readings are integers.
    \<^verbatim>\<open>Date.now()\<close> and \<^verbatim>\<open>new Date()\<close> are the parameter \<open>now\<close> of the call, read once.
  \<^item> The generated identifiers \<^verbatim>\<open>`fade-${Date.now()}`\<close>, \<^verbatim>\<open>`scene-${Date.now()}`\<close>, ...
    are the pairs \<open>(''fade'', now)\<close>, \<open>(''scene'', now)\<close>, ...; printing the clock in
    decimal is injective, so lookups agree.
  \<^item> Every \<^verbatim>\<open>async\<close> method runs to completion as one step; a timer callback is one
    call of \<open>tick\<close>, at any clock reading, for any timer handle.
  \<^item> \<^verbatim>\<open>emit\<close> appends to the log \<open>events\<close>; \<^verbatim>\<open>console.log\<close> is not modelled.
\<close>

subsection \<open>Data\<close>

datatype error =
    UniverseNotFound string
  | AdapterNotFound string
  | ChannelOutOfRange
  | ValueOutOfRange
  | FixtureNotFound string
  | SceneNotFound "string \<times> int"
  | RangeError
  | TypeError

type_synonym gen_id = "string \<times> int"

type_synonym js_array = "nat \<rightharpoonup> int"

type_synonym entries = "(int \<times> int) list"

record adapter =
  a_id :: string
  a_name :: string
  a_type :: string
  a_status :: string

datatype conn_status = CONNECTED | DISCONNECTED

record universe =
  u_id :: string
  u_adapterId :: string
  u_number :: nat
  u_channels :: nat
  u_status :: conn_status
  u_createdAt :: int
  u_lastUpdate :: int

record fixture =
  f_id :: string
  f_name :: string
  f_universeId :: string
  f_startChannel :: int
  f_channels :: int
  f_currentValues :: "int list"
  f_createdAt :: int

record scene =
  sc_id :: gen_id
  sc_name :: string
  sc_data :: "(string \<times> entries) list"
  sc_createdAt :: int

text \<open>
  The kind-specific fields of an effect object. \<open>None\<close> as a strobe duration is
  \<^verbatim>\<open>Infinity\<close>; an element \<open>None\<close> of \<open>startValues\<close> is \<^verbatim>\<open>undefined\<close>.
\<close>

datatype effect_body =
    FADE "int list" int int int "int option list"
  | CHASE "int list list" int nat
  | STROBE "int list" int int

text \<open>\<open>e_running = None\<close>: the object has no \<^verbatim>\<open>running\<close> property (a fade before any stop).\<close>

record effect =
  e_id :: gen_id
  e_universeId :: string
  e_body :: effect_body
  e_running :: "bool option"

text \<open>
  What a \<^verbatim>\<open>setInterval\<close> callback has captured: the reference of its effect object, the
  parameters of the start call, and its mutable local (\<^verbatim>\<open>step\<close>, \<^verbatim>\<open>isOn\<close>).
\<close>

datatype closure =
    FadeTick nat gen_id string "int list" int int int
  | ChaseTick nat gen_id string "int list list" nat
  | StrobeTick nat gen_id string "int list" "int option" bool

datatype event =
    AdaptersDiscovered
  | UniverseConnected string
  | ChannelChanged string int int int
  | ChannelsChanged string entries int
  | FixtureAdded string
  | FixtureControlled string "int list"
  | SceneSaved gen_id
  | SceneLoaded gen_id
  | FadeStarted gen_id
  | FadeComplete gen_id
  | ChaseStarted gen_id
  | StrobeStarted gen_id
  | StrobeComplete gen_id
  | EffectsStopped "string option"
  | UniverseDisconnected string
  | SceneDeleted gen_id

record controller =
  universes :: "(string \<times> universe) list"
  fixtures :: "(string \<times> fixture) list"
  scenes :: "(gen_id \<times> scene) list"
  effects :: "(gen_id \<times> nat) list"
  activeEffects :: "gen_id list"
  dmxAdapters :: "adapter list"
  arrays :: "nat \<Rightarrow> js_array"
  effect_objs :: "nat \<rightharpoonup> effect"
  timers :: "nat \<rightharpoonup> closure"
  fresh :: nat
  events :: "event list"

type_synonym 'a outcome = "(error + 'a) \<times> controller"

record universe_status =
  st_id :: string
  st_status :: conn_status
  st_channels :: nat
  st_lastUpdate :: int
  st_fixtures :: nat
  st_activeEffects :: nat

subsection \<open>JavaScript helpers\<close>

definition emit :: "event \<Rightarrow> controller \<Rightarrow> controller" where
  "emit e s = s\<lparr>events := events s @ [e]\<rparr>"

definition set_add :: "'a \<Rightarrow> 'a list \<Rightarrow> 'a list" where
  "set_add x xs = (if x \<in> set xs then xs else xs @ [x])"

definition set_delete :: "'a \<Rightarrow> 'a list \<Rightarrow> 'a list" where
  "set_delete x xs = removeAll x xs"

text \<open>\<^verbatim>\<open>new Array(512).fill(0)\<close>\<close>

definition new_channels :: js_array where
  "new_channels = (\<lambda>i. if i < 512 then Some 0 else None)"

text \<open>\<^verbatim>\<open>arr[i]\<close> for an integer \<open>i\<close>: \<^verbatim>\<open>undefined\<close> below 0 and wherever nothing was stored.\<close>

definition array_get :: "js_array \<Rightarrow> int \<Rightarrow> int option" where
  "array_get arr i = (if i < 0 then None else arr (nat i))"

definition nth_opt :: "'a option list \<Rightarrow> nat \<Rightarrow> 'a option" where
  "nth_opt xs i = (if i < length xs then xs ! i else None)"

text \<open>
  An object with integer keys is the list of its properties in creation order, written
  with \<open>AList.update\<close>. \<^verbatim>\<open>Object.entries\<close> lists the array-index keys (0 to 2^32 - 2) in
  ascending order first, then the other keys in creation order.
\<close>

definition is_array_index :: "int \<Rightarrow> bool" where
  "is_array_index k = (0 \<le> k \<and> k < 4294967295)"

definition object_entries :: "(int \<times> 'v) list \<Rightarrow> (int \<times> 'v) list" where
  "object_entries obj =
     sort_key fst (filter (\<lambda>e. is_array_index (fst e)) obj)
       @ filter (\<lambda>e. \<not> is_array_index (fst e)) obj"

text \<open>
  A value that is \<^verbatim>\<open>NaN\<close> or infinite fails the range test of \<open>setChannels\<close>, like a
  missing entry: such properties (\<open>None\<close>) are left out of the entries handed over.
\<close>

definition finite_entries :: "(int \<times> int option) list \<Rightarrow> entries" where
  "finite_entries es = List.map_filter (\<lambda>e. map_option (Pair (fst e)) (snd e)) es"

subsection \<open>Universes and the channel store\<close>

definition init :: controller where
  "init = \<lparr>universes = [], fixtures = [], scenes = [], effects = [], activeEffects = [],
     dmxAdapters = [], arrays = (\<lambda>r. Map.empty), effect_objs = Map.empty, timers = Map.empty,
     fresh = 0, events = []\<rparr>"

definition known_adapters :: "adapter list" where
  "known_adapters =
     [\<lparr>a_id = ''dmx-king-1'', a_name = ''DMX King Interface'', a_type = ''DMXKing'',
        a_status = ''available''\<rparr>,
      \<lparr>a_id = ''enttec-1'', a_name = ''Enttec OpenDMX'', a_type = ''ENTTEC'',
        a_status = ''available''\<rparr>,
      \<lparr>a_id = ''elation-1'', a_name = ''Elation DMXIS'', a_type = ''ELATION'',
        a_status = ''available''\<rparr>]"

definition getAvailableAdapters :: "controller \<Rightarrow> adapter list outcome" where
  "getAvailableAdapters s =
     (Inr known_adapters, emit AdaptersDiscovered (s\<lparr>dmxAdapters := known_adapters\<rparr>))"

definition connectUniverse :: "int \<Rightarrow> controller \<Rightarrow> string \<Rightarrow> string \<Rightarrow> universe outcome" where
  "connectUniverse now s universeId adapterId =
     (if find (\<lambda>a. a_id a = adapterId) (dmxAdapters s) = None
      then (Inl (AdapterNotFound adapterId), s)
      else
        let r = fresh s;
            U = \<lparr>u_id = universeId, u_adapterId = adapterId, u_number = length (universes s),
                 u_channels = r, u_status = CONNECTED, u_createdAt = now, u_lastUpdate = now\<rparr>
        in (Inr U,
            emit (UniverseConnected universeId)
              (s\<lparr>arrays := (arrays s)(r := new_channels), fresh := Suc r,
                 universes := AList.update universeId U (universes s)\<rparr>)))"

definition setChannel :: "int \<Rightarrow> controller \<Rightarrow> string \<Rightarrow> int \<Rightarrow> int \<Rightarrow> (int \<times> int) outcome" where
  "setChannel now s universeId channel val =
     (case map_of (universes s) universeId of
        None \<Rightarrow> (Inl (UniverseNotFound universeId), s)
      | Some U \<Rightarrow>
          if channel < 1 \<or> channel > 512 then (Inl ChannelOutOfRange, s)
          else if val < 0 \<or> val > 255 then (Inl ValueOutOfRange, s)
          else
            (Inr (channel, val),
             emit (ChannelChanged universeId channel val now)
               (s\<lparr>arrays := (arrays s)(u_channels U :=
                     (arrays s (u_channels U))(nat (channel - 1) \<mapsto> val)),
                  universes := AList.update universeId (U\<lparr>u_lastUpdate := now\<rparr>) (universes s)\<rparr>)))"

text \<open>
  The body of the loop of \<open>setChannels\<close>: one entry \<open>(ch, value)\<close>, the array and the
  list \<^verbatim>\<open>updates\<close>. \<open>valid_entry\<close> is the test
  \<^verbatim>\<open>ch >= 1 && ch <= 512 && value >= 0 && value <= 255\<close>.
\<close>

definition valid_entry :: "int \<times> int \<Rightarrow> bool" where
  "valid_entry e = (1 \<le> fst e \<and> fst e \<le> 512 \<and> 0 \<le> snd e \<and> snd e \<le> 255)"

definition channel_step :: "int \<times> int \<Rightarrow> js_array \<times> entries \<Rightarrow> js_array \<times> entries" where
  "channel_step e acc =
     (if valid_entry e
      then ((fst acc)(nat (fst e - 1) \<mapsto> snd e), snd acc @ [e])
      else acc)"

text \<open>
  \<open>channels\<close> is \<^verbatim>\<open>Object.entries(channels)\<close>, keys already through \<^verbatim>\<open>parseInt\<close>. The
  returned number is \<^verbatim>\<open>updatedCount\<close>.
\<close>

definition setChannels :: "int \<Rightarrow> controller \<Rightarrow> string \<Rightarrow> entries \<Rightarrow> nat outcome" where
  "setChannels now s universeId channels =
     (case map_of (universes s) universeId of
        None \<Rightarrow> (Inl (UniverseNotFound universeId), s)
      | Some U \<Rightarrow>
          let res = fold channel_step channels (arrays s (u_channels U), [])
          in (Inr (length (snd res)),
              emit (ChannelsChanged universeId (snd res) now)
                (s\<lparr>arrays := (arrays s)(u_channels U := fst res),
                   universes := AList.update universeId (U\<lparr>u_lastUpdate := now\<rparr>) (universes s)\<rparr>)))"

subsection \<open>Fixtures\<close>

text \<open>
  \<^verbatim>\<open>new Array(channels)\<close> throws a RangeError for a length that is negative or above
  2^32 - 1. The opaque \<^verbatim>\<open>profile\<close> object is not modelled.
\<close>

definition setFixtureMapping ::
  "int \<Rightarrow> controller \<Rightarrow> string \<Rightarrow> string \<Rightarrow> int \<Rightarrow> int \<Rightarrow> fixture outcome" where
  "setFixtureMapping now s universeId fixtureName startChannel channels =
     (if channels < 0 \<or> channels > 4294967295 then (Inl RangeError, s)
      else
        let f = \<lparr>f_id = universeId @ ''-'' @ fixtureName, f_name = fixtureName,
                 f_universeId = universeId, f_startChannel = startChannel,
                 f_channels = channels, f_currentValues = replicate (nat channels) 0,
                 f_createdAt = now\<rparr>
        in (Inr f, emit (FixtureAdded (f_id f)) (s\<lparr>fixtures := AList.update (f_id f) f (fixtures s)\<rparr>)))"

definition getFixtures :: "controller \<Rightarrow> string \<Rightarrow> fixture list" where
  "getFixtures s universeId = filter (\<lambda>f. f_universeId f = universeId) (map snd (fixtures s))"

text \<open>
  \<open>vals\<close> is \<^verbatim>\<open>Object.values(values)\<close>. The loop stores \<open>vals ! i\<close> under the key
  \<^verbatim>\<open>fixture.startChannel - 1 + i\<close> of the object \<^verbatim>\<open>channels\<close>.
\<close>

definition fixture_channels :: "int \<Rightarrow> int list \<Rightarrow> entries" where
  "fixture_channels startChannel vals =
     fold (\<lambda>i obj. AList.update (startChannel - 1 + int i) (vals ! i) obj) [0..<length vals] []"

definition controlFixture :: "int \<Rightarrow> controller \<Rightarrow> string \<Rightarrow> int list \<Rightarrow> unit outcome" where
  "controlFixture now s fixtureId vals =
     (case map_of (fixtures s) fixtureId of
        None \<Rightarrow> (Inl (FixtureNotFound fixtureId), s)
      | Some f \<Rightarrow>
          (case map_of (universes s) (f_universeId f) of
             None \<Rightarrow> (Inl (UniverseNotFound (f_universeId f)), s)
           | Some U \<Rightarrow>
               (case setChannels now s (f_universeId f)
                       (object_entries (fixture_channels (f_startChannel f) vals)) of
                  (Inl e, s1) \<Rightarrow> (Inl e, s1)
                | (Inr n, s1) \<Rightarrow>
                    (Inr (),
                     emit (FixtureControlled fixtureId vals)
                       (s1\<lparr>fixtures :=
                            AList.update fixtureId (f\<lparr>f_currentValues := vals\<rparr>) (fixtures s1)\<rparr>)))))"

subsection \<open>Scenes\<close>

text \<open>\<open>sceneData\<close> is the caller's object, as the list of its entries per universe id.\<close>

definition saveScene :: "int \<Rightarrow> controller \<Rightarrow> string \<Rightarrow> (string \<times> entries) list \<Rightarrow> scene outcome" where
  "saveScene now s name sceneData =
     (let sc = \<lparr>sc_id = (''scene'', now), sc_name = name, sc_data = sceneData,
                sc_createdAt = now\<rparr>
      in (Inr sc, emit (SceneSaved (sc_id sc)) (s\<lparr>scenes := AList.update (sc_id sc) sc (scenes s)\<rparr>)))"

text \<open>The loop of \<open>loadScene\<close> over \<^verbatim>\<open>Object.entries(scene.data)\<close>; a throw leaves the loop.\<close>

fun apply_scene :: "int \<Rightarrow> (string \<times> entries) list \<Rightarrow> controller \<Rightarrow> unit outcome" where
  "apply_scene now [] s = (Inr (), s)"
| "apply_scene now ((universeId, channels) # rest) s =
     (case setChannels now s universeId channels of
        (Inl e, s1) \<Rightarrow> (Inl e, s1)
      | (Inr n, s1) \<Rightarrow> apply_scene now rest s1)"

definition loadScene :: "int \<Rightarrow> controller \<Rightarrow> gen_id \<Rightarrow> scene outcome" where
  "loadScene now s sceneId =
     (case map_of (scenes s) sceneId of
        None \<Rightarrow> (Inl (SceneNotFound sceneId), s)
      | Some sc \<Rightarrow>
          (case apply_scene now (sc_data sc) s of
             (Inl e, s1) \<Rightarrow> (Inl e, s1)
           | (Inr u, s1) \<Rightarrow> (Inr sc, emit (SceneLoaded sceneId) s1)))"

definition deleteScene :: "controller \<Rightarrow> gen_id \<Rightarrow> bool \<times> controller" where
  "deleteScene s sceneId =
     (if map_of (scenes s) sceneId \<noteq> None
      then (True, emit (SceneDeleted sceneId) (s\<lparr>scenes := AList.delete sceneId (scenes s)\<rparr>))
      else (False, s))"

subsection \<open>Effects\<close>

text \<open>
  The number \<^verbatim>\<open>Math.min(elapsed / duration, 1)\<close>. JavaScript numbers are idealised as
  exact rationals; the division by a zero duration is written out: a positive elapsed
  time gives \<^verbatim>\<open>Infinity\<close> and so 1, a zero one gives \<^verbatim>\<open>NaN\<close>, a negative one
  \<^verbatim>\<open>-Infinity\<close>.
\<close>

datatype progress = Prog rat | NegInfinity | NotANumber

definition fade_progress :: "int \<Rightarrow> int \<Rightarrow> progress" where
  "fade_progress elapsed duration =
     (if duration = 0
      then (if 0 < elapsed then Prog 1 else if elapsed = 0 then NotANumber else NegInfinity)
      else Prog (min (of_int elapsed / of_int duration) 1))"

text \<open>\<^verbatim>\<open>Math.round\<close>: the nearest integer, a half rounding up.\<close>

definition js_round :: "rat \<Rightarrow> int" where
  "js_round x = \<lfloor>x + 1 / 2\<rfloor>"

text \<open>
  \<^verbatim>\<open>Math.round(startVal + (targetValue - startVal) * progress)\<close>; \<open>None\<close> when the result
  is \<^verbatim>\<open>NaN\<close> or infinite.
\<close>

definition fade_value :: "int option \<Rightarrow> int \<Rightarrow> progress \<Rightarrow> int option" where
  "fade_value startVal targetValue p =
     (case startVal of
        None \<Rightarrow> None
      | Some sv \<Rightarrow>
          (case p of
             Prog q \<Rightarrow> Some (js_round (of_int sv + of_int (targetValue - sv) * q))
           | NegInfinity \<Rightarrow> None
           | NotANumber \<Rightarrow> None))"

definition progress_done :: "progress \<Rightarrow> bool" where
  "progress_done p = (case p of Prog q \<Rightarrow> 1 \<le> q | NegInfinity \<Rightarrow> False | NotANumber \<Rightarrow> False)"

definition startValues_of :: "effect option \<Rightarrow> int option list" where
  "startValues_of e =
     (case e of
        None \<Rightarrow> []
      | Some eff \<Rightarrow> (case e_body eff of FADE cs tv d t0 svs \<Rightarrow> svs | CHASE g sp st \<Rightarrow> [] | STROBE cs f t0 \<Rightarrow> []))"

definition startTime_of :: "effect option \<Rightarrow> int" where
  "startTime_of e =
     (case e of
        None \<Rightarrow> 0
      | Some eff \<Rightarrow> (case e_body eff of FADE cs tv d t0 svs \<Rightarrow> t0 | CHASE g sp st \<Rightarrow> 0 | STROBE cs f t0 \<Rightarrow> t0))"

definition startFade ::
  "int \<Rightarrow> controller \<Rightarrow> string \<Rightarrow> int list \<Rightarrow> int \<Rightarrow> int \<Rightarrow> gen_id outcome" where
  "startFade now s universeId channels targetValue duration =
     (case map_of (universes s) universeId of
        None \<Rightarrow> (Inl (UniverseNotFound universeId), s)
      | Some U \<Rightarrow>
          let effectId = (''fade'', now);
              r = fresh s;
              eff = \<lparr>e_id = effectId, e_universeId = universeId,
                     e_body = FADE channels targetValue duration now
                       (map (\<lambda>ch. array_get (arrays s (u_channels U)) (ch - 1)) channels),
                     e_running = None\<rparr>
          in (Inr effectId,
              emit (FadeStarted effectId)
                (s\<lparr>effect_objs := (effect_objs s)(r \<mapsto> eff),
                   effects := AList.update effectId r (effects s),
                   activeEffects := set_add effectId (activeEffects s),
                   timers := (timers s)(r \<mapsto>
                     FadeTick r effectId universeId channels targetValue duration now),
                   fresh := Suc r\<rparr>)))"

definition startChase :: "int \<Rightarrow> controller \<Rightarrow> string \<Rightarrow> int list list \<Rightarrow> int \<Rightarrow> gen_id outcome" where
  "startChase now s universeId channelGroups speed =
     (let effectId = (''chase'', now);
          r = fresh s;
          eff = \<lparr>e_id = effectId, e_universeId = universeId,
                 e_body = CHASE channelGroups speed 0, e_running = Some True\<rparr>
      in (Inr effectId,
          emit (ChaseStarted effectId)
            (s\<lparr>effect_objs := (effect_objs s)(r \<mapsto> eff),
               effects := AList.update effectId r (effects s),
               activeEffects := set_add effectId (activeEffects s),
               timers := (timers s)(r \<mapsto> ChaseTick r effectId universeId channelGroups 0),
               fresh := Suc r\<rparr>)))"

definition startStrobe ::
  "int \<Rightarrow> controller \<Rightarrow> string \<Rightarrow> int list \<Rightarrow> int \<Rightarrow> int option \<Rightarrow> gen_id outcome" where
  "startStrobe now s universeId channels frequency duration =
     (let effectId = (''strobe'', now);
          r = fresh s;
          eff = \<lparr>e_id = effectId, e_universeId = universeId,
                 e_body = STROBE channels frequency now, e_running = Some True\<rparr>
      in (Inr effectId,
          emit (StrobeStarted effectId)
            (s\<lparr>effect_objs := (effect_objs s)(r \<mapsto> eff),
               effects := AList.update effectId r (effects s),
               activeEffects := set_add effectId (activeEffects s),
               timers := (timers s)(r \<mapsto> StrobeTick r effectId universeId channels duration False),
               fresh := Suc r\<rparr>)))"

text \<open>The object \<^verbatim>\<open>updates\<close> of one fade tick, before \<^verbatim>\<open>Object.entries\<close>.\<close>

definition fade_updates ::
  "int list \<Rightarrow> int option list \<Rightarrow> int \<Rightarrow> progress \<Rightarrow> (int \<times> int option) list" where
  "fade_updates channels startValues targetValue p =
     fold (\<lambda>i obj. AList.update (channels ! i)
                      (fade_value (nth_opt startValues i) targetValue p) obj)
       [0..<length channels] []"

text \<open>
  The callback of \<open>startFade\<close>. A throw of \<open>setChannels\<close> rejects the callback's promise:
  what follows the \<^verbatim>\<open>await\<close> does not run.
\<close>

definition fade_tick ::
  "int \<Rightarrow> nat \<Rightarrow> nat \<Rightarrow> gen_id \<Rightarrow> string \<Rightarrow> int list \<Rightarrow> int \<Rightarrow> int \<Rightarrow> int \<Rightarrow> controller \<Rightarrow> controller" where
  "fade_tick now h r effectId universeId channels targetValue duration startTime s =
     (let elapsed = now - startTime;
          p = fade_progress elapsed duration;
          updates = fade_updates channels (startValues_of (effect_objs s r)) targetValue p
      in case setChannels now s universeId (finite_entries (object_entries updates)) of
           (Inl e, s1) \<Rightarrow> s1
         | (Inr n, s1) \<Rightarrow>
             if progress_done p
             then emit (FadeComplete effectId)
                    (s1\<lparr>timers := (timers s1)(h := None),
                        activeEffects := set_delete effectId (activeEffects s1)\<rparr>)
             else s1)"

text \<open>
  The object \<^verbatim>\<open>updates\<close> of one chase tick: every channel of every group at 0, then the
  channels of the current group at 255.
\<close>

definition chase_updates :: "int list list \<Rightarrow> nat \<Rightarrow> entries" where
  "chase_updates channelGroups step =
     fold (\<lambda>ch obj. AList.update ch 255 obj) (channelGroups ! (step mod length channelGroups))
       (fold (\<lambda>ch obj. AList.update ch 0 obj) (concat channelGroups) [])"

text \<open>
  The callback of \<open>startChase\<close>. With no group at all, \<^verbatim>\<open>channelGroups[NaN]\<close> is
  \<^verbatim>\<open>undefined\<close> and iterating it throws before anything is written.
\<close>

definition chase_tick ::
  "int \<Rightarrow> nat \<Rightarrow> nat \<Rightarrow> gen_id \<Rightarrow> string \<Rightarrow> int list list \<Rightarrow> nat \<Rightarrow> controller \<Rightarrow> controller" where
  "chase_tick now h r effectId universeId channelGroups step s =
     (if Option.bind (effect_objs s r) e_running \<noteq> Some True
      then s\<lparr>timers := (timers s)(h := None),
             activeEffects := set_delete effectId (activeEffects s)\<rparr>
      else if channelGroups = [] then s
      else
        (case setChannels now s universeId (object_entries (chase_updates channelGroups step)) of
           (Inl e, s1) \<Rightarrow> s1
         | (Inr n, s1) \<Rightarrow>
             s1\<lparr>timers := (timers s1)(h \<mapsto>
                  ChaseTick r effectId universeId channelGroups (Suc step))\<rparr>))"

definition strobe_updates :: "int list \<Rightarrow> bool \<Rightarrow> entries" where
  "strobe_updates channels isOn =
     fold (\<lambda>ch obj. AList.update ch (if isOn then 255 else 0) obj) channels []"

definition strobe_tick ::
  "int \<Rightarrow> nat \<Rightarrow> nat \<Rightarrow> gen_id \<Rightarrow> string \<Rightarrow> int list \<Rightarrow> int option \<Rightarrow> bool \<Rightarrow> controller \<Rightarrow> controller" where
  "strobe_tick now h r effectId universeId channels duration isOn s =
     (let elapsed = now - startTime_of (effect_objs s r)
      in if (case duration of None \<Rightarrow> False | Some d \<Rightarrow> d < elapsed)
         then emit (StrobeComplete effectId)
                (s\<lparr>timers := (timers s)(h := None),
                   activeEffects := set_delete effectId (activeEffects s)\<rparr>)
         else
           (case setChannels now s universeId (object_entries (strobe_updates channels isOn)) of
              (Inl e, s1) \<Rightarrow> s1
            | (Inr n, s1) \<Rightarrow>
                s1\<lparr>timers := (timers s1)(h \<mapsto>
                     StrobeTick r effectId universeId channels duration (\<not> isOn))\<rparr>))"

text \<open>
  One run of the callback registered under the timer handle \<open>h\<close>, at clock reading
  \<open>now\<close>. A handle that was cleared (or never set) has no callback left to run.
\<close>

definition tick :: "int \<Rightarrow> nat \<Rightarrow> controller \<Rightarrow> controller" where
  "tick now h s =
     (case timers s h of
        None \<Rightarrow> s
      | Some (FadeTick r effectId universeId channels targetValue duration startTime) \<Rightarrow>
          fade_tick now h r effectId universeId channels targetValue duration startTime s
      | Some (ChaseTick r effectId universeId channelGroups step) \<Rightarrow>
          chase_tick now h r effectId universeId channelGroups step s
      | Some (StrobeTick r effectId universeId channels duration isOn) \<Rightarrow>
          strobe_tick now h r effectId universeId channels duration isOn s)"

text \<open>\<^verbatim>\<open>effect.running = false\<close> on the object behind a reference.\<close>

definition set_not_running :: "nat \<Rightarrow> controller \<Rightarrow> controller" where
  "set_not_running r s =
     (case effect_objs s r of
        None \<Rightarrow> s
      | Some eff \<Rightarrow> s\<lparr>effect_objs := (effect_objs s)(r \<mapsto> eff\<lparr>e_running := Some False\<rparr>)\<rparr>)"

definition stopEffect :: "controller \<Rightarrow> gen_id \<Rightarrow> unit outcome" where
  "stopEffect s effectId =
     (case map_of (effects s) effectId of
        None \<Rightarrow> (Inr (), s)
      | Some r \<Rightarrow>
          (Inr (), (set_not_running r s)\<lparr>activeEffects := set_delete effectId (activeEffects s)\<rparr>))"

text \<open>
  The loop of \<open>stopAllEffects\<close> over the active ids. \<^verbatim>\<open>!universeId\<close> holds for
  \<^verbatim>\<open>null\<close> (\<open>None\<close>) and for the empty string. An id without an effect object makes
  \<^verbatim>\<open>effect.universeId\<close> throw a TypeError.
\<close>

fun stop_loop :: "gen_id list \<Rightarrow> string option \<Rightarrow> controller \<Rightarrow> unit outcome" where
  "stop_loop [] universeId s = (Inr (), s)"
| "stop_loop (effectId # rest) universeId s =
     (case Option.bind (map_of (effects s) effectId) (\<lambda>r. map_option (Pair r) (effect_objs s r)) of
        None \<Rightarrow> (Inl TypeError, s)
      | Some (r, eff) \<Rightarrow>
          if universeId = None \<or> universeId = Some [] \<or> Some (e_universeId eff) = universeId
          then stop_loop rest universeId
                 ((set_not_running r s)\<lparr>activeEffects := set_delete effectId (activeEffects s)\<rparr>)
          else stop_loop rest universeId s)"

definition stopAllEffects :: "controller \<Rightarrow> string option \<Rightarrow> unit outcome" where
  "stopAllEffects s universeId =
     (case stop_loop (activeEffects s) universeId s of
        (Inl e, s1) \<Rightarrow> (Inl e, s1)
      | (Inr u, s1) \<Rightarrow> (Inr (), emit (EffectsStopped universeId) s1))"

definition disconnectUniverse :: "controller \<Rightarrow> string \<Rightarrow> unit outcome" where
  "disconnectUniverse s universeId =
     (case stopAllEffects s (Some universeId) of
        (Inl e, s1) \<Rightarrow> (Inl e, s1)
      | (Inr u, s1) \<Rightarrow>
          (case map_of (universes s1) universeId of
             None \<Rightarrow> (Inr (), s1)
           | Some U \<Rightarrow>
               (Inr (),
                emit (UniverseDisconnected universeId)
                  (s1\<lparr>universes :=
                       AList.update universeId (U\<lparr>u_status := DISCONNECTED\<rparr>) (universes s1)\<rparr>))))"

subsection \<open>Status and frame\<close>

text \<open>
  \<open>getUniverseStatus\<close> returns \<^verbatim>\<open>null\<close> (\<open>None\<close>) for an unknown universe. Its field
  \<^verbatim>\<open>channels\<close> is \<^verbatim>\<open>universe.channels\<close> itself: the reference of the live array.
\<close>

definition count_active :: "controller \<Rightarrow> string \<Rightarrow> error + nat" where
  "count_active s universeId =
     (if \<exists>effectId \<in> set (activeEffects s).
           Option.bind (map_of (effects s) effectId) (effect_objs s) = None
      then Inl TypeError
      else Inr (length (filter
             (\<lambda>effectId. map_option e_universeId
                (Option.bind (map_of (effects s) effectId) (effect_objs s)) = Some universeId)
             (activeEffects s))))"

definition getUniverseStatus :: "controller \<Rightarrow> string \<Rightarrow> error + universe_status option" where
  "getUniverseStatus s universeId =
     (case map_of (universes s) universeId of
        None \<Rightarrow> Inr None
      | Some U \<Rightarrow>
          (case count_active s universeId of
             Inl e \<Rightarrow> Inl e
           | Inr n \<Rightarrow>
               Inr (Some \<lparr>st_id = u_id U, st_status = u_status U, st_channels = u_channels U,
                          st_lastUpdate = u_lastUpdate U,
                          st_fixtures = length (getFixtures s universeId),
                          st_activeEffects = n\<rparr>)))"

text \<open>
  Storing into a \<^verbatim>\<open>Buffer\<close> converts to an unsigned byte: the value modulo 256, and 0
  for \<^verbatim>\<open>undefined\<close>. The buffer is new at every call, so it is returned as a value.
\<close>

definition to_byte :: "int option \<Rightarrow> 8 word" where
  "to_byte v = (case v of None \<Rightarrow> 0 | Some x \<Rightarrow> word_of_int x)"

definition getDMXBuffer :: "controller \<Rightarrow> string \<Rightarrow> error + 8 word list" where
  "getDMXBuffer s universeId =
     (case map_of (universes s) universeId of
        None \<Rightarrow> Inl (UniverseNotFound universeId)
      | Some U \<Rightarrow> Inr (0 # map (\<lambda>i. to_byte (arrays s (u_channels U) i)) [0..<512]))"



subsection \<open>Invariant\<close>

text \<open>
  The data-model invariant of a channel array: each of the 512 channels holds an integer
  from 0 to 255.
\<close>

definition byte_valued :: "js_array \<Rightarrow> bool" where
  "byte_valued arr =
     (\<forall>i\<in>set [0..<512]. case arr i of None \<Rightarrow> False | Some v \<Rightarrow> 0 \<le> v \<and> v \<le> 255)"

definition channels_ok :: "controller \<Rightarrow> bool" where
  "channels_ok s = (\<forall>p\<in>set (universes s). byte_valued (arrays s (u_channels (snd p))))"

subsection \<open>Scenes: what the statements below refer to\<close>

text \<open>The entries of a scene applied one after the other, each by \<open>setChannels\<close>.\<close>

definition apply_all :: "int \<Rightarrow> (string \<times> entries) list \<Rightarrow> controller \<Rightarrow> controller" where
  "apply_all now data s = fold (\<lambda>e st. snd (setChannels now st (fst e) (snd e))) data s"


subsection \<open>Sample runs\<close>

text \<open>
  The adapters are discovered, then the universe \<open>u1\<close> is connected at clock reading
  1000: the states the worked examples below start from.
\<close>

definition demo_ready :: controller where
  "demo_ready = snd (getAvailableAdapters init)"

definition demo_universe :: universe where
  "demo_universe = \<lparr>u_id = ''u1'', u_adapterId = ''enttec-1'', u_number = 0, u_channels = 0,
     u_status = CONNECTED, u_createdAt = 1000, u_lastUpdate = 1000\<rparr>"

definition demo_u1 :: controller where
  "demo_u1 = snd (connectUniverse 1000 demo_ready ''u1'' ''enttec-1'')"

text \<open>A three-channel fixture at start channel 1 of \<open>u1\<close>; its id is \<open>u1-par\<close>.\<close>

definition demo_fixture :: controller where
  "demo_fixture = snd (setFixtureMapping 1500 demo_u1 ''u1'' ''par'' 1 3)"

text \<open>
  A fade of channel 1 to 200 over 3000 ms started at clock reading 2000, then stopped
  with \<open>stopEffect\<close>; a strobe of channel 2 with no end, then stopped; a chase over the
  groups [3] and [4], then stopped.
\<close>

definition demo_fade :: controller where
  "demo_fade = snd (startFade 2000 demo_u1 ''u1'' [1] 200 3000)"

definition demo_fade_stopped :: controller where
  "demo_fade_stopped = snd (stopEffect demo_fade (''fade'', 2000))"

definition demo_strobe :: controller where
  "demo_strobe = snd (startStrobe 2000 demo_u1 ''u1'' [2] 5 None)"

definition demo_strobe_stopped :: controller where
  "demo_strobe_stopped = snd (stopEffect demo_strobe (''strobe'', 2000))"

definition demo_chase :: controller where
  "demo_chase = snd (startChase 2000 demo_u1 ''u1'' [[3], [4]] 200)"

definition demo_chase_stopped :: controller where
  "demo_chase_stopped = snd (stopEffect demo_chase (''chase'', 2000))"

text \<open>A fixture defined on the universe id \<open>u9\<close>, which was never connected.\<close>

definition demo_orphan :: controller where
  "demo_orphan = snd (setFixtureMapping 1500 demo_u1 ''u9'' ''par'' 1 3)"


text \<open>
  A scene saved at clock reading 2500 whose first entry names the universe \<open>gone\<close>, which
  is not connected, and whose second entry is for \<open>u1\<close>; and a scene that lists \<open>u1\<close>
  with channel 2 only.
\<close>

definition demo_scene_gone :: controller where
  "demo_scene_gone = snd (saveScene 2500 demo_u1 ''s1'' [(''gone'', [(1, 9)]), (''u1'', [(1, 9)])])"

definition demo_scene_partial :: controller where
  "demo_scene_partial = snd (saveScene 2500 demo_u1 ''s1'' [(''u1'', [(2, 50)])])"



section \<open>Properties of the channel store\<close>

lemma channel_step_valid:
  "valid_entry e \<Longrightarrow>
   channel_step e acc = ((fst acc)(nat (fst e - 1) \<mapsto> snd e), snd acc @ [e])"
  by (simp add: channel_step_def)

lemma channel_step_invalid: "\<not> valid_entry e \<Longrightarrow> channel_step e acc = acc"
  by (simp add: channel_step_def)

lemma channel_step_snd: "snd (fold channel_step es acc) = snd acc @ filter valid_entry es"
  by (induction es arbitrary: acc) (auto simp: channel_step_def)

lemma channel_step_none: "\<forall>e\<in>set es. \<not> valid_entry e \<Longrightarrow> fold channel_step es acc = acc"
  by (induction es arbitrary: acc) (auto simp: channel_step_def)

text \<open>An index that no valid entry addresses keeps its value.\<close>

lemma channel_step_other:
  "\<forall>e\<in>set es. valid_entry e \<longrightarrow> nat (fst e - 1) \<noteq> j \<Longrightarrow>
   fst (fold channel_step es acc) j = fst acc j"
  by (induction es arbitrary: acc) (auto simp: channel_step_def)

text \<open>
  A channel whose valid entries all carry the value \<open>v\<close>, and that has one, ends at \<open>v\<close>.
\<close>

lemma channel_step_same:
  "(c, v) \<in> set es \<Longrightarrow> valid_entry (c, v) \<Longrightarrow>
   \<forall>e\<in>set es. valid_entry e \<and> fst e = c \<longrightarrow> snd e = v \<Longrightarrow>
   fst (fold channel_step es acc) (nat (c - 1)) = Some v"
proof (induction es arbitrary: acc)
  case Nil
  then show ?case by simp
next
  case (Cons e es)
  show ?case
  proof (cases "(c, v) \<in> set es")
    case True
    with Cons show ?thesis by simp
  next
    case False
    with Cons.prems have e: "e = (c, v)" by simp
    have "\<forall>x\<in>set es. valid_entry x \<longrightarrow> nat (fst x - 1) \<noteq> nat (c - 1)"
    proof (intro ballI impI)
      fix x assume x: "x \<in> set es" "valid_entry x"
      show "nat (fst x - 1) \<noteq> nat (c - 1)"
      proof
        assume "nat (fst x - 1) = nat (c - 1)"
        with x(2) Cons.prems(2) have "fst x = c" unfolding valid_entry_def by auto
        with x Cons.prems(3) have "snd x = v" by simp
        with \<open>fst x = c\<close> have "x = (c, v)" by (cases x) simp
        with x(1) False show False by simp
      qed
    qed
    then have "fst (fold channel_step es (channel_step e acc)) (nat (c - 1))
        = fst (channel_step e acc) (nat (c - 1))"
      by (rule channel_step_other)
    with e Cons.prems(2) show ?thesis by (simp add: channel_step_valid)
  qed
qed



lemma byte_valued_new: "byte_valued new_channels"
  by (simp add: byte_valued_def new_channels_def)

lemma setChannels_universe_keys:
  "(map_of (universes (snd (setChannels now s u chs))) k = None) = (map_of (universes s) k = None)"
  by (auto simp: setChannels_def Let_def emit_def update_conv' split: option.splits)

lemma setChannels_fails:
  "map_of (universes s) u = None \<Longrightarrow> setChannels now s u chs = (Inl (UniverseNotFound u), s)"
  by (simp add: setChannels_def)

lemma setChannels_succeeds:
  "map_of (universes s) u \<noteq> None \<Longrightarrow> \<exists>n. fst (setChannels now s u chs) = Inr n"
  by (auto simp: setChannels_def Let_def)

lemma setChannels_arrays:
  "arrays (snd (setChannels now s u es))
     = (case map_of (universes s) u of
          None \<Rightarrow> arrays s
        | Some U \<Rightarrow> (arrays s)(u_channels U :=
            fst (fold channel_step es (arrays s (u_channels U), []))))"
  by (simp add: setChannels_def Let_def emit_def split: option.splits)

section \<open>Objects and their entries\<close>


lemma update_consistent_set:
  "\<forall>e\<in>set obj. snd e = F (fst e) \<Longrightarrow>
   set (AList.update c (F c) obj) = insert (c, F c) (set obj)"
  by (induction obj) (auto simp: prod_eq_iff)

lemma fold_update_set:
  "\<forall>e\<in>set obj. snd e = F (fst e) \<Longrightarrow>
   set (fold (\<lambda>c ob. AList.update c (F c) ob) cs obj)
     = (\<lambda>c. (c, F c)) ` set cs \<union> set obj"
proof (induction cs arbitrary: obj)
  case Nil
  then show ?case by simp
next
  case (Cons c cs)
  from Cons.prems have s: "set (AList.update c (F c) obj) = insert (c, F c) (set obj)"
    by (rule update_consistent_set)
  then have "\<forall>e\<in>set (AList.update c (F c) obj). snd e = F (fst e)"
    using Cons.prems by auto
  from Cons.IH [OF this] s show ?case by auto
qed


lemma set_object_entries: "set (object_entries obj) = set obj"
  by (auto simp: object_entries_def)


section \<open>The channel invariant is kept by every operation\<close>

lemma channels_ok_same:
  "universes s' = universes s \<Longrightarrow> arrays s' = arrays s \<Longrightarrow> channels_ok s' = channels_ok s"
  by (simp add: channels_ok_def)

lemma channels_ok_init: "channels_ok init"
  by (simp add: channels_ok_def init_def)

lemma set_update_subset: "set (AList.update k v al) \<subseteq> insert (k, v) (set al)"
  by (induction al) auto

lemma byte_valued_step: "byte_valued (fst acc) \<Longrightarrow> byte_valued (fst (channel_step e acc))"
  by (auto simp: channel_step_def valid_entry_def byte_valued_def split: option.splits)

lemma byte_valued_fold: "byte_valued (fst acc) \<Longrightarrow> byte_valued (fst (fold channel_step es acc))"
  by (induction es arbitrary: acc) (simp_all add: byte_valued_step)

lemma channels_ok_touch:
  assumes ok: "channels_ok s" and U: "map_of (universes s) u = Some U"
    and arr: "byte_valued arr" and ch: "u_channels U' = u_channels U"
  shows "channels_ok (s\<lparr>arrays := (arrays s)(u_channels U := arr),
                        universes := AList.update u U' (universes s)\<rparr>)"
  unfolding channels_ok_def
proof
  fix p
  assume "p \<in> set (universes (s\<lparr>arrays := (arrays s)(u_channels U := arr),
                        universes := AList.update u U' (universes s)\<rparr>))"
  then have "p = (u, U') \<or> p \<in> set (universes s)"
    using set_update_subset [of u U' "universes s"] by auto
  then show "byte_valued (arrays (s\<lparr>arrays := (arrays s)(u_channels U := arr),
                        universes := AList.update u U' (universes s)\<rparr>) (u_channels (snd p)))"
    using ok arr ch by (auto simp: channels_ok_def)
qed

lemma channels_ok_lookup:
  "channels_ok s \<Longrightarrow> map_of (universes s) u = Some U \<Longrightarrow> byte_valued (arrays s (u_channels U))"
  by (force simp: channels_ok_def dest: map_of_SomeD)

lemma channels_ok_emit: "channels_ok (emit e s) = channels_ok s"
  by (simp add: emit_def channels_ok_def)

lemma channels_ok_setChannels:
  "channels_ok s \<Longrightarrow> channels_ok (snd (setChannels now s u chs))"
proof (cases "map_of (universes s) u")
  case None
  assume "channels_ok s"
  with None show ?thesis by (simp add: setChannels_def)
next
  case (Some U)
  assume ok: "channels_ok s"
  have "byte_valued (fst (fold channel_step chs (arrays s (u_channels U), [])))"
    by (rule byte_valued_fold) (simp add: channels_ok_lookup [OF ok Some])
  from channels_ok_touch [OF ok Some this, of "U\<lparr>u_lastUpdate := now\<rparr>"] Some
  show ?thesis by (simp add: setChannels_def Let_def channels_ok_emit)
qed

lemma channels_ok_setChannel:
  "channels_ok s \<Longrightarrow> channels_ok (snd (setChannel now s u c v))"
proof (cases "map_of (universes s) u")
  case None
  assume "channels_ok s"
  with None show ?thesis by (simp add: setChannel_def)
next
  case (Some U)
  assume ok: "channels_ok s"
  show ?thesis
  proof (cases "1 \<le> c \<and> c \<le> 512 \<and> 0 \<le> v \<and> v \<le> 255")
    case True
    have "byte_valued ((arrays s (u_channels U))(nat (c - 1) \<mapsto> v))"
      using channels_ok_lookup [OF ok Some] True
      by (auto simp: byte_valued_def split: option.splits)
    from channels_ok_touch [OF ok Some this, of "U\<lparr>u_lastUpdate := now\<rparr>"] Some True
    show ?thesis by (simp add: setChannel_def channels_ok_emit)
  next
    case False
    with Some ok show ?thesis by (auto simp: setChannel_def)
  qed
qed

lemma channels_ok_connectUniverse:
  "channels_ok s \<Longrightarrow> channels_ok (snd (connectUniverse now s u a))"
proof -
  assume ok: "channels_ok s"
  show ?thesis
  proof (cases "find (\<lambda>x. a_id x = a) (dmxAdapters s)")
    case None
    with ok show ?thesis by (simp add: connectUniverse_def)
  next
    case (Some ad)
    let ?U = "\<lparr>u_id = u, u_adapterId = a, u_number = length (universes s),
                 u_channels = fresh s, u_status = CONNECTED, u_createdAt = now, u_lastUpdate = now\<rparr>"
    have "channels_ok (s\<lparr>arrays := (arrays s)(fresh s := new_channels), fresh := Suc (fresh s),
                 universes := AList.update u ?U (universes s)\<rparr>)"
      unfolding channels_ok_def
    proof
      fix p
      assume "p \<in> set (universes (s\<lparr>arrays := (arrays s)(fresh s := new_channels),
                 fresh := Suc (fresh s), universes := AList.update u ?U (universes s)\<rparr>))"
      then have "p = (u, ?U) \<or> p \<in> set (universes s)"
        using set_update_subset [of u ?U "universes s"] by auto
      then show "byte_valued (arrays (s\<lparr>arrays := (arrays s)(fresh s := new_channels),
                 fresh := Suc (fresh s), universes := AList.update u ?U (universes s)\<rparr>)
                 (u_channels (snd p)))"
        using ok by (auto simp: channels_ok_def byte_valued_new)
    qed
    with Some show ?thesis by (simp add: connectUniverse_def Let_def channels_ok_emit)
  qed
qed

lemma channels_ok_controlFixture:
  "channels_ok s \<Longrightarrow> channels_ok (snd (controlFixture now s fid vals))"
proof -
  assume ok: "channels_ok s"
  show ?thesis
  proof (cases "map_of (fixtures s) fid")
    case None
    with ok show ?thesis by (simp add: controlFixture_def)
  next
    case (Some f)
    let ?r = "setChannels now s (f_universeId f) (object_entries (fixture_channels (f_startChannel f) vals))"
    have 1: "channels_ok (snd ?r)" using ok by (rule channels_ok_setChannels)
    show ?thesis
      using Some ok 1
      by (cases ?r) (auto simp: controlFixture_def emit_def channels_ok_def
          split: option.splits sum.splits)
  qed
qed

lemma channels_ok_apply_scene:
  "channels_ok s \<Longrightarrow> channels_ok (snd (apply_scene now data s))"
proof (induction data arbitrary: s)
  case Nil
  then show ?case by simp
next
  case (Cons e data)
  obtain u chs where e: "e = (u, chs)" by (cases e)
  have 1: "channels_ok (snd (setChannels now s u chs))"
    using Cons.prems by (rule channels_ok_setChannels)
  from Cons.IH [OF 1] 1 e show ?case
    by (cases "setChannels now s u chs") (auto split: sum.splits)
qed

lemma channels_ok_loadScene:
  "channels_ok s \<Longrightarrow> channels_ok (snd (loadScene now s sid))"
proof -
  assume ok: "channels_ok s"
  show ?thesis
  proof (cases "map_of (scenes s) sid")
    case None
    with ok show ?thesis by (simp add: loadScene_def)
  next
    case (Some sc)
    from channels_ok_apply_scene [OF ok, of now "sc_data sc"] Some show ?thesis
      by (cases "apply_scene now (sc_data sc) s")
        (auto simp: loadScene_def channels_ok_emit split: sum.splits)
  qed
qed

lemma channels_ok_tick:
  "channels_ok s \<Longrightarrow> channels_ok (tick now h s)"
proof -
  assume ok: "channels_ok s"
  have sc: "\<And>u es. channels_ok (snd (setChannels now s u es))"
    using ok by (rule channels_ok_setChannels)
  have same: "\<And>t a. channels_ok (s\<lparr>timers := t, activeEffects := a\<rparr>)"
    using ok by (simp add: channels_ok_def)
  show ?thesis
  proof (cases "timers s h")
    case None
    with ok show ?thesis by (simp add: tick_def)
  next
    case (Some c)
    show ?thesis
    proof (cases c)
      case (FadeTick r eid u cs tv d t0)
      let ?r = "setChannels now s u (finite_entries (object_entries
          (fade_updates cs (startValues_of (effect_objs s r)) tv (fade_progress (now - t0) d))))"
      from sc [of u] have "channels_ok (snd ?r)" .
      then show ?thesis using Some FadeTick
        by (cases ?r) (auto simp: tick_def fade_tick_def Let_def emit_def channels_ok_def
            split: sum.splits)
    next
      case (ChaseTick r eid u groups step)
      let ?r = "setChannels now s u (object_entries (chase_updates groups step))"
      from sc [of u] have "channels_ok (snd ?r)" .
      then show ?thesis using Some ChaseTick ok same
        by (cases ?r) (auto simp: tick_def chase_tick_def channels_ok_def split: sum.splits)
    next
      case (StrobeTick r eid u cs sd isOn)
      let ?r = "setChannels now s u (object_entries (strobe_updates cs isOn))"
      from sc [of u] have "channels_ok (snd ?r)" .
      then show ?thesis using Some StrobeTick ok same
        by (cases ?r) (auto simp: tick_def strobe_tick_def Let_def emit_def channels_ok_def
            split: sum.splits option.splits)
    qed
  qed
qed

lemma channels_ok_starts:
  "channels_ok s \<Longrightarrow>
   channels_ok (snd (startFade now s u cs tv d)) \<and>
   channels_ok (snd (startChase now s u groups speed)) \<and>
   channels_ok (snd (startStrobe now s u cs freq sd))"
  by (auto simp: startFade_def startChase_def startStrobe_def Let_def emit_def channels_ok_def
      split: option.splits)

lemma set_not_running_same:
  "universes (set_not_running r s) = universes s \<and> arrays (set_not_running r s) = arrays s"
  by (simp add: set_not_running_def split: option.splits)

lemma stop_loop_same:
  "universes (snd (stop_loop ids universeId s)) = universes s \<and>
   arrays (snd (stop_loop ids universeId s)) = arrays s"
  by (induction ids universeId s rule: stop_loop.induct)
    (auto simp: set_not_running_same split: option.splits)

lemma stopAllEffects_same:
  "universes (snd (stopAllEffects s universeId)) = universes s \<and>
   arrays (snd (stopAllEffects s universeId)) = arrays s"
  using stop_loop_same [of "activeEffects s" universeId s]
  by (cases "stop_loop (activeEffects s) universeId s")
    (auto simp: stopAllEffects_def emit_def split: sum.splits)

lemma channels_ok_stops:
  "channels_ok s \<Longrightarrow>
   channels_ok (snd (stopEffect s eid)) \<and>
   channels_ok (snd (stopAllEffects s universeId))"
  using stopAllEffects_same [of s universeId]
  by (auto simp: stopEffect_def channels_ok_def set_not_running_same split: option.splits)

lemma channels_ok_disconnectUniverse:
  "channels_ok s \<Longrightarrow> channels_ok (snd (disconnectUniverse s u))"
proof -
  assume ok: "channels_ok s"
  obtain res s1 where r: "stopAllEffects s (Some u) = (res, s1)" by (cases "stopAllEffects s (Some u)")
  with stopAllEffects_same [of s "Some u"] have same: "universes s1 = universes s" "arrays s1 = arrays s"
    by simp_all
  then have ok1: "channels_ok s1" using ok by (simp add: channels_ok_def)
  show ?thesis
  proof (cases "map_of (universes s1) u")
    case None
    with r ok1 show ?thesis by (auto simp: disconnectUniverse_def split: sum.splits)
  next
    case (Some U)
    have "byte_valued (arrays s1 (u_channels U))" using ok1 Some by (rule channels_ok_lookup)
    from channels_ok_touch [OF ok1 Some this, of "U\<lparr>u_status := DISCONNECTED\<rparr>"]
    have "channels_ok (s1\<lparr>universes := AList.update u (U\<lparr>u_status := DISCONNECTED\<rparr>) (universes s1)\<rparr>)"
      by (simp add: channels_ok_def)
    with r ok1 Some show ?thesis
      by (auto simp: disconnectUniverse_def channels_ok_emit split: sum.splits)
  qed
qed

lemma channels_ok_others:
  "channels_ok s \<Longrightarrow>
   channels_ok (snd (getAvailableAdapters s)) \<and>
   channels_ok (snd (setFixtureMapping now s u name start n)) \<and>
   channels_ok (snd (saveScene now s name data)) \<and>
   channels_ok (snd (deleteScene s sid))"
  by (auto simp: getAvailableAdapters_def setFixtureMapping_def saveScene_def deleteScene_def
      Let_def emit_def channels_ok_def)

section \<open>The sample states, evaluated\<close>

lemma demo_ready_eq:
  "demo_ready = init\<lparr>dmxAdapters := known_adapters, events := [AdaptersDiscovered]\<rparr>"
  by (simp add: demo_ready_def getAvailableAdapters_def emit_def init_def)

lemma demo_u1_eq:
  "demo_u1 = init\<lparr>universes := [(''u1'', demo_universe)], dmxAdapters := known_adapters,
     arrays := (\<lambda>r. Map.empty)(0 := new_channels), fresh := 1,
     events := [AdaptersDiscovered, UniverseConnected ''u1'']\<rparr>"
  by (simp add: demo_u1_def demo_ready_eq connectUniverse_def known_adapters_def emit_def
      init_def demo_universe_def Let_def)

lemma demo_u1_lookup: "map_of (universes demo_u1) ''u1'' = Some demo_universe"
  by (simp add: demo_u1_eq)

section \<open>Cancellation\<close>

text \<open>None of the three stop operations clears a timer.\<close>

lemma stopEffect_timers: "timers (snd (stopEffect s effectId)) = timers s"
  by (simp add: stopEffect_def set_not_running_def split: option.splits)

lemma stop_loop_timers: "timers (snd (stop_loop ids universeId s)) = timers s"
  by (induction ids universeId s rule: stop_loop.induct)
    (auto simp: set_not_running_def split: option.splits)

lemma stopAllEffects_timers: "timers (snd (stopAllEffects s universeId)) = timers s"
  using stop_loop_timers [of "activeEffects s" universeId s]
  by (cases "stop_loop (activeEffects s) universeId s")
    (auto simp: stopAllEffects_def emit_def split: sum.splits)

lemma disconnectUniverse_timers: "timers (snd (disconnectUniverse s universeId)) = timers s"
  using stopAllEffects_timers [of s "Some universeId"]
  by (cases "stopAllEffects s (Some universeId)")
    (auto simp: disconnectUniverse_def emit_def split: sum.splits option.splits)

text \<open>
  The chase callback tests the flag that the stop operations clear: once the flag of its
  effect object is not \<open>true\<close>, a chase tick writes no channel and clears its own timer.
\<close>

lemma chase_tick_stopped:
  "timers s h = Some (ChaseTick r effectId universeId channelGroups step) \<Longrightarrow>
   Option.bind (effect_objs s r) e_running \<noteq> Some True \<Longrightarrow>
   arrays (tick now h s) = arrays s \<and> timers (tick now h s) h = None"
  by (simp add: tick_def chase_tick_def)

lemma fade_tick_arrays_general:
  "arrays (fade_tick now h r eid u cs tv d t0 s)
     = arrays (snd (setChannels now s u (finite_entries (object_entries
         (fade_updates cs (startValues_of (effect_objs s r)) tv (fade_progress (now - t0) d))))))"
  by (cases "setChannels now s u (finite_entries (object_entries
         (fade_updates cs (startValues_of (effect_objs s r)) tv (fade_progress (now - t0) d))))")
    (auto simp: fade_tick_def Let_def emit_def split: sum.splits)

lemma strobe_tick_arrays_general:
  "arrays (strobe_tick now h r eid u cs sd isOn s)
     = (if (case sd of None \<Rightarrow> False | Some d \<Rightarrow> d < now - startTime_of (effect_objs s r))
        then arrays s
        else arrays (snd (setChannels now s u (object_entries (strobe_updates cs isOn)))))"
  by (cases "setChannels now s u (object_entries (strobe_updates cs isOn))")
    (auto simp: strobe_tick_def Let_def emit_def split: sum.splits)

lemma set_not_running_reads:
  "startValues_of (effect_objs (set_not_running r' s) r) = startValues_of (effect_objs s r) \<and>
   startTime_of (effect_objs (set_not_running r' s) r) = startTime_of (effect_objs s r)"
  by (simp add: set_not_running_def startValues_of_def startTime_of_def split: option.splits)

lemma stopEffect_reads:
  "universes (snd (stopEffect s x)) = universes s \<and>
   arrays (snd (stopEffect s x)) = arrays s \<and>
   startValues_of (effect_objs (snd (stopEffect s x)) r) = startValues_of (effect_objs s r) \<and>
   startTime_of (effect_objs (snd (stopEffect s x)) r) = startTime_of (effect_objs s r)"
  by (simp add: stopEffect_def set_not_running_reads set_not_running_same split: option.splits)

text \<open>
  Stopping changes nothing of what a fade tick or a strobe tick writes: with or without
  a \<open>stopEffect\<close> before it, for any effect id, the tick leaves the same channel arrays.
\<close>

lemma stopEffect_does_not_reach_fade_or_strobe:
  "timers s h = Some (FadeTick r eid u cs tv d t0) \<or>
   timers s h = Some (StrobeTick r eid u cs sd isOn) \<Longrightarrow>
   arrays (tick now h (snd (stopEffect s x))) = arrays (tick now h s)"
  by (auto simp: tick_def stopEffect_timers fade_tick_arrays_general strobe_tick_arrays_general
      setChannels_arrays stopEffect_reads split: option.splits)

text \<open>
  C1. The claim: after \<open>stopEffect\<close>, \<open>stopAllEffects\<close> or \<open>disconnectUniverse\<close> returns,
  no tick of a stopped fade, chase or strobe writes a channel. The code at the sample
  runs: the fade of channel 1 (timer handle 1) is stopped, its id has left
  \<open>activeEffects\<close>, and its next tick, 50 ms after the start, still writes 3 into channel
  1 (index 0 of array 0); the same after \<open>stopAllEffects\<close> and after
  \<open>disconnectUniverse\<close>. The stopped strobe of channel 2 still writes 255 at its second
  tick. Only the stopped chase writes nothing.
\<close>

theorem stopped_fade_and_strobe_still_write:
  "activeEffects demo_fade_stopped = [] \<and>
   arrays demo_fade_stopped 0 0 = Some 0 \<and>
   arrays (tick 2050 1 demo_fade_stopped) 0 0 = Some 3 \<and>
   arrays (tick 2050 1 (snd (stopAllEffects demo_fade None))) 0 0 = Some 3 \<and>
   arrays (tick 2050 1 (snd (disconnectUniverse demo_fade ''u1''))) 0 0 = Some 3 \<and>
   activeEffects demo_strobe_stopped = [] \<and>
   arrays demo_strobe_stopped 0 1 = Some 0 \<and>
   arrays (tick 2200 1 (tick 2100 1 demo_strobe_stopped)) 0 1 = Some 255 \<and>
   map (arrays demo_chase_stopped 0) [2, 3] = [Some 0, Some 0] \<and>
   map (arrays (tick 2200 1 demo_chase_stopped) 0) [2, 3] = [Some 0, Some 0] \<and>
   map (arrays (tick 2200 1 demo_chase) 0) [2, 3] = [Some 255, Some 0]"
  by code_simp

section \<open>Fixture control\<close>

lemma controlFixture_unknown:
  "map_of (fixtures s) fixtureId = None \<Longrightarrow>
   controlFixture now s fixtureId vals = (Inl (FixtureNotFound fixtureId), s)"
  by (simp add: controlFixture_def)

lemma fixture_channels_set:
  "set (fixture_channels st vals) = {(st - 1 + int i, vals ! i) | i. i < length vals}"
proof -
  let ?F = "\<lambda>c. vals ! nat (c - (st - 1))"
  let ?k = "\<lambda>i. st - 1 + int i"
  have "fixture_channels st vals
      = fold ((\<lambda>c. AList.update c (?F c)) \<circ> ?k) [0..<length vals] []"
    unfolding fixture_channels_def by (rule fold_cong) simp_all
  also have "\<dots> = fold (\<lambda>c. AList.update c (?F c)) (map ?k [0..<length vals]) []"
    by (simp only: fold_map)
  finally have "set (fixture_channels st vals) = (\<lambda>c. (c, ?F c)) ` set (map ?k [0..<length vals])"
    by (simp only: fold_update_set [of "[]" ?F, simplified])
  then show ?thesis by auto
qed

lemma controlFixture_channel:
  assumes f: "map_of (fixtures s) fid = Some f"
    and U: "map_of (universes s) (f_universeId f) = Some U"
    and i: "i < length vals"
    and c: "1 \<le> f_startChannel f - 1 + int i" "f_startChannel f - 1 + int i \<le> 512"
    and v: "0 \<le> vals ! i" "vals ! i \<le> 255"
  shows "arrays (snd (controlFixture now s fid vals)) (u_channels U)
           (nat (f_startChannel f - 1 + int i - 1)) = Some (vals ! i)"
proof -
  let ?c = "f_startChannel f - 1 + int i"
  let ?es = "object_entries (fixture_channels (f_startChannel f) vals)"
  have es: "set ?es = {(f_startChannel f - 1 + int j, vals ! j) | j. j < length vals}"
    by (simp add: set_object_entries fixture_channels_set)
  have m: "(?c, vals ! i) \<in> set ?es" using i by (auto simp: es)
  have ok: "valid_entry (?c, vals ! i)" using c v by (simp add: valid_entry_def)
  have u: "\<forall>e\<in>set ?es. valid_entry e \<and> fst e = ?c \<longrightarrow> snd e = vals ! i"
    by (auto simp: es)
  have "arrays (snd (controlFixture now s fid vals)) (u_channels U)
      = fst (fold channel_step ?es (arrays s (u_channels U), []))"
    using f U by (simp add: controlFixture_def setChannels_def Let_def emit_def)
  with channel_step_same [OF m ok u] show ?thesis by simp
qed

text \<open>
  C2. The claim: fixture control writes \<open>vals ! i\<close> to channel \<open>startChannel + i\<close>. The
  code at the sample fixture (start channel 1, three channels) with the values 10, 20,
  30: the key of value \<open>i\<close> is \<open>startChannel - 1 + i\<close>, which \<open>setChannels\<close> reads as a
  channel number. The value 10 goes to channel 0 and is skipped; channel 1 (index 0)
  receives 20, channel 2 receives 30, channel 3 keeps 0, and two entries are applied.
\<close>

theorem controlFixture_writes_one_channel_low:
  "map_of (fixtures demo_fixture) ''u1-par'' \<noteq> None \<and>
   fixture_channels 1 [10, 20, 30] = [(0, 10), (1, 20), (2, 30)] \<and>
   fst (controlFixture 2000 demo_fixture ''u1-par'' [10, 20, 30]) = Inr () \<and>
   map (arrays (snd (controlFixture 2000 demo_fixture ''u1-par'' [10, 20, 30])) 0) [0, 1, 2]
     = [Some 20, Some 30, Some 0] \<and>
   last (events (snd (setChannels 2000 demo_fixture ''u1''
       (object_entries (fixture_channels 1 [10, 20, 30])))))
     = ChannelsChanged ''u1'' [(1, 20), (2, 30)] 2000"
  by code_simp

section \<open>Operations on a universe that is not in the registry\<close>

text \<open>
  C3, as claimed: every operation on a universe id that is not connected returns
  \<open>UniverseNotFound\<close>. At the sample state without any universe, the status of \<open>u9\<close> is
  \<^verbatim>\<open>null\<close> and no error, a chase and a strobe on \<open>u9\<close> start and are registered, and a
  fixture is defined on \<open>u9\<close>.
\<close>

theorem unknown_universe_not_always_an_error:
  "map_of (universes demo_ready) ''u9'' = None \<and>
   getUniverseStatus demo_ready ''u9'' = Inr None \<and>
   fst (startChase 2000 demo_ready ''u9'' [[1]] 200) = Inr (''chase'', 2000) \<and>
   map_of (effects (snd (startChase 2000 demo_ready ''u9'' [[1]] 200))) (''chase'', 2000) = Some 0 \<and>
   fst (startStrobe 2000 demo_ready ''u9'' [1] 5 None) = Inr (''strobe'', 2000) \<and>
   map_option f_universeId
     (map_of (fixtures (snd (setFixtureMapping 2000 demo_ready ''u9'' ''par'' 1 3))) ''u9-par'')
     = Some ''u9''"
  by code_simp

text \<open>
  C3, amended. For every universe id \<open>u\<close> that is not in the registry, \<open>setChannel\<close>,
  \<open>setChannels\<close>, \<open>startFade\<close> and \<open>getDMXBuffer\<close> on \<open>u\<close>, and \<open>controlFixture\<close> on a
  fixture whose universe is \<open>u\<close>, fail with \<open>UniverseNotFound u\<close> and leave the controller
  as it was; \<open>getUniverseStatus u\<close> returns \<^verbatim>\<open>null\<close> and no error.
\<close>

theorem unknown_universe_checked_operations:
  "map_of (universes s) u = None \<Longrightarrow>
     setChannel now s u c v = (Inl (UniverseNotFound u), s) \<and>
     setChannels now s u chs = (Inl (UniverseNotFound u), s) \<and>
     startFade now s u cs tv d = (Inl (UniverseNotFound u), s) \<and>
     getDMXBuffer s u = Inl (UniverseNotFound u) \<and>
     (\<forall>f. map_of (fixtures s) fid = Some f \<and> f_universeId f = u \<longrightarrow>
        controlFixture now s fid vals = (Inl (UniverseNotFound u), s)) \<and>
     getUniverseStatus s u = Inr None"
  by (auto simp: setChannel_def setChannels_def startFade_def getDMXBuffer_def
      controlFixture_def getUniverseStatus_def)

theorem unknown_universe_checked_operations_witness:
  "map_of (universes demo_orphan) ''u9'' = None \<and>
   map_option f_universeId (map_of (fixtures demo_orphan) ''u9-par'') = Some ''u9'' \<and>
   setChannel 3000 demo_orphan ''u9'' 1 255 = (Inl (UniverseNotFound ''u9''), demo_orphan) \<and>
   setChannels 3000 demo_orphan ''u9'' [(1, 255)] = (Inl (UniverseNotFound ''u9''), demo_orphan) \<and>
   startFade 3000 demo_orphan ''u9'' [1] 200 3000 = (Inl (UniverseNotFound ''u9''), demo_orphan) \<and>
   getDMXBuffer demo_orphan ''u9'' = Inl (UniverseNotFound ''u9'') \<and>
   controlFixture 3000 demo_orphan ''u9-par'' [10, 20, 30]
     = (Inl (UniverseNotFound ''u9''), demo_orphan) \<and>
   getUniverseStatus demo_orphan ''u9'' = Inr None"
proof -
  have n: "map_of (universes demo_orphan) ''u9'' = None" by code_simp
  have f: "map_option f_universeId (map_of (fixtures demo_orphan) ''u9-par'') = Some ''u9''"
    by code_simp
  then obtain fx where fx: "map_of (fixtures demo_orphan) ''u9-par'' = Some fx"
    "f_universeId fx = ''u9''" by auto
  from unknown_universe_checked_operations [OF n, of 3000 _ _ _ _ _ _ "''u9-par''" "[10, 20, 30]"]
    n f fx show ?thesis by blast
qed

section \<open>Saving a scene\<close>







section \<open>The fade effect\<close>












text \<open>
  \<open>startFade\<close> creates exactly such a fade: the timer, and the start values read from the
  universe's array as it is at the start.
\<close>

lemma startFade_records:
  "map_of (universes s) u = Some U \<Longrightarrow>
   timers (snd (startFade now s u cs tv d)) (fresh s)
     = Some (FadeTick (fresh s) (''fade'', now) u cs tv d now) \<and>
   startValues_of (effect_objs (snd (startFade now s u cs tv d)) (fresh s))
     = map (\<lambda>ch. array_get (arrays s (u_channels U)) (ch - 1)) cs \<and>
   map_of (universes (snd (startFade now s u cs tv d))) u = Some U \<and>
   arrays (snd (startFade now s u cs tv d)) = arrays s"
  by (simp add: startFade_def Let_def emit_def startValues_of_def)



section \<open>The frame encoder\<close>



section \<open>Loading a scene\<close>

lemma apply_scene_complete:
  "\<forall>e\<in>set data. map_of (universes s) (fst e) \<noteq> None \<Longrightarrow>
   apply_scene now data s = (Inr (), apply_all now data s)"
proof (induction data arbitrary: s)
  case Nil
  then show ?case by (simp add: apply_all_def)
next
  case (Cons e data)
  obtain u chs where e: "e = (u, chs)" by (cases e)
  from Cons.prems e have "map_of (universes s) u \<noteq> None" by simp
  from setChannels_succeeds [OF this] obtain n where n: "fst (setChannels now s u chs) = Inr n"
    by blast
  have keep: "\<forall>x\<in>set data. map_of (universes (snd (setChannels now s u chs))) (fst x) \<noteq> None"
    using Cons.prems by (simp add: setChannels_universe_keys)
  from Cons.IH [OF keep] n e show ?case
    by (cases "setChannels now s u chs") (simp add: apply_all_def)
qed

lemma apply_scene_abort:
  "\<forall>e\<in>set pre. map_of (universes s) (fst e) \<noteq> None \<Longrightarrow> map_of (universes s) u = None \<Longrightarrow>
   apply_scene now (pre @ (u, chs) # post) s = (Inl (UniverseNotFound u), apply_all now pre s)"
proof (induction pre arbitrary: s)
  case Nil
  then show ?case by (simp add: apply_all_def setChannels_fails)
next
  case (Cons e pre)
  obtain u' chs' where e: "e = (u', chs')" by (cases e)
  from Cons.prems e have "map_of (universes s) u' \<noteq> None" by simp
  from setChannels_succeeds [OF this] obtain n where n: "fst (setChannels now s u' chs') = Inr n"
    by blast
  have keep: "\<forall>x\<in>set pre. map_of (universes (snd (setChannels now s u' chs'))) (fst x) \<noteq> None"
    using Cons.prems by (simp add: setChannels_universe_keys)
  have gone: "map_of (universes (snd (setChannels now s u' chs'))) u = None"
    using Cons.prems by (simp add: setChannels_universe_keys)
  from Cons.IH [OF keep gone] n e show ?case
    by (cases "setChannels now s u' chs'") (simp add: apply_all_def)
qed

text \<open>
  C7, as claimed: an entry whose universe no longer exists is skipped and the remaining
  entries are still applied. At the sample scene, whose first entry names the unknown
  universe \<open>gone\<close>: the load fails with \<open>UniverseNotFound\<close>, and the second entry, which
  by itself sets channel 1 of \<open>u1\<close> to 9, is not applied: channel 1 stays 0.
\<close>

theorem loadScene_stops_at_missing_universe_example:
  "fst (loadScene 3000 demo_scene_gone (''scene'', 2500)) = Inl (UniverseNotFound ''gone'') \<and>
   map_of (universes demo_scene_gone) ''u1'' = Some demo_universe \<and>
   arrays (snd (loadScene 3000 demo_scene_gone (''scene'', 2500))) 0 0 = Some 0 \<and>
   arrays (snd (setChannels 3000 demo_scene_gone ''u1'' [(1, 9)])) 0 0 = Some 9"
  by code_simp

text \<open>
  C7, amended. \<open>loadScene\<close> fails with \<open>SceneNotFound\<close> for an unknown scene id.
  Otherwise it applies the universe entries of the scene in order, each as one
  \<open>setChannels\<close> batch: when every universe named exists, all entries are applied and the
  scene is returned; at the first entry whose universe is not in the registry the load
  stops with \<open>UniverseNotFound\<close> of that universe, the entries before it applied and
  the entries after it not.
\<close>

theorem loadScene_applies_until_missing_universe:
  "(map_of (scenes s) sid = None \<longrightarrow> loadScene now s sid = (Inl (SceneNotFound sid), s)) \<and>
   (\<forall>sc. map_of (scenes s) sid = Some sc \<longrightarrow>
      ((\<forall>e\<in>set (sc_data sc). map_of (universes s) (fst e) \<noteq> None) \<longrightarrow>
         loadScene now s sid = (Inr sc, emit (SceneLoaded sid) (apply_all now (sc_data sc) s))) \<and>
      (\<forall>pre u chs post.
         sc_data sc = pre @ (u, chs) # post \<and>
         (\<forall>e\<in>set pre. map_of (universes s) (fst e) \<noteq> None) \<and>
         map_of (universes s) u = None \<longrightarrow>
         loadScene now s sid = (Inl (UniverseNotFound u), apply_all now pre s)))"
  by (auto simp: loadScene_def apply_scene_complete apply_scene_abort)

theorem loadScene_applies_until_missing_universe_witness:
  "map_of (scenes demo_scene_gone) (''scene'', 1) = None \<and>
   loadScene 3000 demo_scene_gone (''scene'', 1) = (Inl (SceneNotFound (''scene'', 1)), demo_scene_gone) \<and>
   map_option sc_data (map_of (scenes demo_scene_gone) (''scene'', 2500))
     = Some ([] @ (''gone'', [(1, 9)]) # [(''u1'', [(1, 9)])]) \<and>
   map_of (universes demo_scene_gone) ''gone'' = None \<and>
   loadScene 3000 demo_scene_gone (''scene'', 2500)
     = (Inl (UniverseNotFound ''gone''), demo_scene_gone) \<and>
   map_option sc_data (map_of (scenes demo_scene_partial) (''scene'', 2500))
     = Some [(''u1'', [(2, 50)])] \<and>
   map_of (universes demo_scene_partial) ''u1'' \<noteq> None \<and>
   snd (loadScene 3000 demo_scene_partial (''scene'', 2500))
     = emit (SceneLoaded (''scene'', 2500)) (apply_all 3000 [(''u1'', [(2, 50)])] demo_scene_partial)"
proof -
  have a: "map_of (scenes demo_scene_gone) (''scene'', 1) = None" by code_simp
  have b: "map_option sc_data (map_of (scenes demo_scene_gone) (''scene'', 2500))
     = Some ([] @ (''gone'', [(1, 9)]) # [(''u1'', [(1, 9)])])" by code_simp
  then obtain sc where sc: "map_of (scenes demo_scene_gone) (''scene'', 2500) = Some sc"
    "sc_data sc = [] @ (''gone'', [(1, 9)]) # [(''u1'', [(1, 9)])]" by auto
  have c: "map_of (universes demo_scene_gone) ''gone'' = None" by code_simp
  have d: "map_option sc_data (map_of (scenes demo_scene_partial) (''scene'', 2500))
     = Some [(''u1'', [(2, 50)])]" by code_simp
  then obtain sp where sp: "map_of (scenes demo_scene_partial) (''scene'', 2500) = Some sp"
    "sc_data sp = [(''u1'', [(2, 50)])]" by auto
  have e: "map_of (universes demo_scene_partial) ''u1'' \<noteq> None" by code_simp
  note t1 = loadScene_applies_until_missing_universe [of demo_scene_gone "(''scene'', 1)" 3000]
  note t2 = loadScene_applies_until_missing_universe [of demo_scene_gone "(''scene'', 2500)" 3000]
  note t3 = loadScene_applies_until_missing_universe [of demo_scene_partial "(''scene'', 2500)" 3000]
  from t1 a have 1: "loadScene 3000 demo_scene_gone (''scene'', 1)
      = (Inl (SceneNotFound (''scene'', 1)), demo_scene_gone)" by blast
  from t2 sc c have "loadScene 3000 demo_scene_gone (''scene'', 2500)
      = (Inl (UniverseNotFound ''gone''), apply_all 3000 [] demo_scene_gone)"
    by (metis empty_iff list.set(1))
  then have 2: "loadScene 3000 demo_scene_gone (''scene'', 2500)
      = (Inl (UniverseNotFound ''gone''), demo_scene_gone)" by (simp add: apply_all_def)
  from t3 sp e have 3: "snd (loadScene 3000 demo_scene_partial (''scene'', 2500))
     = emit (SceneLoaded (''scene'', 2500)) (apply_all 3000 [(''u1'', [(2, 50)])] demo_scene_partial)"
    by simp
  from a b c d e 1 2 3 show ?thesis by blast
qed

section \<open>Starting effects\<close>





section \<open>What a status result shares with the store\<close>




section \<open>Batch writes and the update time\<close>

text \<open>
  C10. For every universe in the registry, a batch call of \<open>setChannels\<close> returns the
  number of valid entries, sets the universe's \<open>lastUpdate\<close> to the clock reading of the
  call and emits exactly one aggregated \<open>ChannelsChanged\<close> notification carrying the
  applied entries; this also happens when every entry of the batch is invalid, where the
  count is 0 and no channel array changes: \<open>lastUpdate\<close> advances although no channel
  value did.
\<close>

theorem setChannels_always_touches:
  "map_of (universes s) u = Some U \<Longrightarrow>
     fst (setChannels now s u chs) = Inr (length (filter valid_entry chs)) \<and>
     map_option u_lastUpdate (map_of (universes (snd (setChannels now s u chs))) u) = Some now \<and>
     events (snd (setChannels now s u chs))
       = events s @ [ChannelsChanged u (filter valid_entry chs) now] \<and>
     ((\<forall>e\<in>set chs. \<not> valid_entry e) \<longrightarrow>
        fst (setChannels now s u chs) = Inr 0 \<and>
        arrays (snd (setChannels now s u chs)) = arrays s)"
  by (auto simp: setChannels_def Let_def emit_def channel_step_snd channel_step_none update_conv')

theorem setChannels_always_touches_witness:
  "map_of (universes demo_u1) ''u1'' = Some demo_universe \<and>
   u_lastUpdate demo_universe = 1000 \<and>
   fst (setChannels 2000 demo_u1 ''u1'' [(0, 5), (7, 300)]) = Inr 0 \<and>
   map_option u_lastUpdate
     (map_of (universes (snd (setChannels 2000 demo_u1 ''u1'' [(0, 5), (7, 300)]))) ''u1'')
     = Some 2000 \<and>
   arrays (snd (setChannels 2000 demo_u1 ''u1'' [(0, 5), (7, 300)])) = arrays demo_u1"
  using setChannels_always_touches [OF demo_u1_lookup, of 2000 "[(0, 5), (7, 300)]"]
    demo_u1_lookup
  by (simp add: valid_entry_def demo_universe_def)

end
